theory Spec2Isabelle
  imports Main "HOL-Library.AList"
begin

section \<open>Python values, exceptions and dictionaries\<close>

text \<open>
  The request handlers of \<^verbatim>\<open>globus_portal_framework/views.py\<close> work on dynamically typed
  Python values: template contexts, search results and session entries are dictionaries
  with string keys whose values are strings, numbers, lists, nested dictionaries or
  exception objects. A dictionary is an association list in insertion order with distinct
  keys; an item assignment \<^verbatim>\<open>d[k] = v\<close> is \<open>AList.update k v d\<close> (replace in place, or append).
\<close>

text \<open>
  The exceptions the handlers raise, catch or let through. \<open>TransferAPIError\<close> carries the
  attributes \<^verbatim>\<open>code\<close> and \<^verbatim>\<open>message\<close> the handler reads. The class declarations are not part
  of \<^verbatim>\<open>views.py\<close>: \<open>PreviewURLNotFound\<close> is taken to be a subclass of \<open>PreviewException\<close>
  (the handler raises it inside the \<^verbatim>\<open>try\<close> block whose only clause catches
  \<open>PreviewException\<close>), \<open>PreviewException c\<close> stands for an instance of any other class
  of that family with \<^verbatim>\<open>code\<close> attribute \<open>c\<close>, and \<open>ExpiredGlobusToken\<close>,
  \<open>TransferAPIError\<close> and \<open>ValueError\<close> are unrelated classes. \<open>NoReverseMatch\<close> is what
  Django raises for a name it cannot resolve to a URL. \<open>OtherException\<close> is any
  exception of a class none of the \<^verbatim>\<open>except\<close> clauses names.
\<close>

datatype exn =
    TransferAPIError string string
  | PreviewException string
  | PreviewURLNotFound string
  | ExpiredGlobusToken
  | ValueError string
  | KeyError string
  | IndexError
  | TypeError
  | AttributeError
  | NoReverseMatch string
  | OtherException string

datatype pyval =
    PNone
  | PBool bool
  | PInt int
  | PStr string
  | PList "pyval list"
  | PDict "(string \<times> pyval) list"
  | PExn exn

type_synonym pydict = "(string \<times> pyval) list"

text \<open>Python's truth value of an object, as \<^verbatim>\<open>if x:\<close>, \<^verbatim>\<open>not x\<close> and \<^verbatim>\<open>any\<close> test it.\<close>

fun truthy :: "pyval \<Rightarrow> bool" where
  "truthy PNone = False"
| "truthy (PBool b) = b"
| "truthy (PInt i) = (i \<noteq> 0)"
| "truthy (PStr s) = (s \<noteq> [])"
| "truthy (PList xs) = (xs \<noteq> [])"
| "truthy (PDict d) = (d \<noteq> [])"
| "truthy (PExn e) = True"

text \<open>\<^verbatim>\<open>d.get(k)\<close>: the value, or \<^verbatim>\<open>None\<close> for a missing key.\<close>

definition dict_get :: "pydict \<Rightarrow> string \<Rightarrow> pyval" where
  "dict_get d k = (case map_of d k of None \<Rightarrow> PNone | Some v \<Rightarrow> v)"

text \<open>
  \<^verbatim>\<open>v[0]\<close> and \<^verbatim>\<open>v['key']\<close> on an arbitrary value. Dictionaries here have string keys only,
  so the integer key \<^verbatim>\<open>0\<close> is never found in one.
\<close>

fun subscript_0 :: "pyval \<Rightarrow> exn + pyval" where
  "subscript_0 (PList []) = Inl IndexError"
| "subscript_0 (PList (x # xs)) = Inr x"
| "subscript_0 (PStr []) = Inl IndexError"
| "subscript_0 (PStr (c # cs)) = Inr (PStr [c])"
| "subscript_0 (PDict d) = Inl (KeyError ''0'')"
| "subscript_0 v = Inl TypeError"

fun subscript_str :: "pyval \<Rightarrow> string \<Rightarrow> exn + pyval" where
  "subscript_str (PDict d) k = (case map_of d k of None \<Rightarrow> Inl (KeyError k) | Some v \<Rightarrow> Inr v)"
| "subscript_str v k = Inl TypeError"

text \<open>
  A URL keyword argument or an optional query parameter is a string or \<^verbatim>\<open>None\<close>:
  its truth value, and how \<^verbatim>\<open>str.format\<close> prints it.
\<close>

definition truthy_opt :: "string option \<Rightarrow> bool" where
  "truthy_opt x = (case x of None \<Rightarrow> False | Some s \<Rightarrow> s \<noteq> [])"

definition fmt_opt :: "string option \<Rightarrow> string" where
  "fmt_opt x = (case x of None \<Rightarrow> ''None'' | Some s \<Rightarrow> s)"

section \<open>Requests, responses and the portal's helpers\<close>

record portal_user =
  is_authenticated :: bool
  username :: string

text \<open>
  The parts of Django's request object the handlers touch. \<open>GET\<close> gives, for each query
  parameter present, the value \<^verbatim>\<open>request.GET.get\<close> returns for it; \<open>full_path\<close> is what
  \<^verbatim>\<open>request.get_full_path()\<close> returns; \<open>messages\<close> are the messages registered on the
  request through \<^verbatim>\<open>django.contrib.messages\<close>, with their level.
\<close>

record request =
  user :: portal_user
  http_method :: string
  GET :: "(string \<times> string) list"
  full_path :: string
  session :: pydict
  messages :: "(string \<times> pyval) list"

text \<open>The three components of \<^verbatim>\<open>urllib.parse.urlparse\<close>'s result that the handlers read.\<close>

record parse_result =
  netloc :: string
  path :: string
  query :: string

text \<open>
  What a handler returns: the page of \<^verbatim>\<open>render(request, template, context)\<close>, or the
  redirect response of \<^verbatim>\<open>redirect(to)\<close> with the URL it points to.
\<close>

datatype response =
    Render string pydict
  | Redirect string

text \<open>
  The handlers are glue over helpers of the portal framework, the Globus SDK, Django and
  the standard library, none of which is defined in \<^verbatim>\<open>views.py\<close>. They are parameters of
  the model. A helper of the framework (\<open>get_setting\<close> \<dots> \<open>revoke_globus_tokens\<close>) and
  \<open>urlparse\<close> may return a value or raise any exception. Of Django's own operations,
  \<open>reverse\<close> (called on the route \<^verbatim>\<open>'detail-transfer'\<close> with the arguments the handler itself was
  dispatched with) and \<open>build_absolute_uri\<close> compute a string, and \<open>django_logout\<close>
  gives the user and the session the request holds after \<^verbatim>\<open>django.contrib.auth.logout\<close>
  (which never changes the query parameters). \<open>resolve_url\<close> is what
  \<^verbatim>\<open>django.shortcuts.redirect\<close> does to its argument before it builds the response: the
  argument is not taken as a URL right away but first looked up as the name of a route, so the
  result is the URL of that route if there is one, the argument itself if it begins with
  \<^verbatim>\<open>./\<close> or \<^verbatim>\<open>../\<close> or contains a \<^verbatim>\<open>/\<close> or a \<^verbatim>\<open>.\<close>, and the exception \<open>NoReverseMatch\<close>
  otherwise; the model takes it as a parameter that returns a URL or raises.
  \<open>str_of\<close> is Python's \<^verbatim>\<open>str()\<close> on a value that
  is not a string, and \<open>preview_url_not_found_code\<close> is the \<^verbatim>\<open>code\<close> attribute of a
  \<open>PreviewURLNotFound\<close> instance.
\<close>

record env =
  get_setting :: "string \<Rightarrow> exn + pyval"
  get_search_query :: "request \<Rightarrow> exn + pyval"
  get_search_filters :: "request \<Rightarrow> exn + pyval"
  post_search :: "string \<Rightarrow> pyval \<Rightarrow> pyval \<Rightarrow> portal_user \<Rightarrow> pyval \<Rightarrow> exn + pydict"
  get_subject :: "string \<Rightarrow> string \<Rightarrow> portal_user \<Rightarrow> exn + pydict"
  get_template :: "string \<Rightarrow> string \<Rightarrow> exn + string"
  check_exists :: "portal_user \<Rightarrow> string \<Rightarrow> string \<Rightarrow> bool \<Rightarrow> exn + pyval"
  helper_page_transfer :: "request \<Rightarrow> string \<Rightarrow> string \<Rightarrow> bool \<Rightarrow> exn + pyval"
  get_helper_page_url :: "string \<Rightarrow> string \<Rightarrow> int \<Rightarrow> int \<Rightarrow> exn + pyval"
  preview :: "portal_user \<Rightarrow> string \<Rightarrow> string option \<Rightarrow> pyval \<Rightarrow> exn + pyval"
  revoke_globus_tokens :: "portal_user \<Rightarrow> exn + unit"
  urlparse :: "string \<Rightarrow> exn + parse_result"
  reverse :: "string \<Rightarrow> string list \<Rightarrow> string"
  build_absolute_uri :: "request \<Rightarrow> string \<Rightarrow> string"
  django_logout :: "request \<Rightarrow> portal_user \<times> pydict"
  resolve_url :: "string \<Rightarrow> exn + string"
  str_of :: "pyval \<Rightarrow> string"
  preview_url_not_found_code :: string

text \<open>
  Every call a handler makes to a helper that reaches outside the handler is recorded, with its
  arguments, in the order the calls are made.
\<close>

datatype call =
    Call_get_setting string
  | Call_get_search_query request
  | Call_get_search_filters request
  | Call_post_search string pyval pyval portal_user pyval
  | Call_get_subject string string portal_user
  | Call_get_template string string
  | Call_check_exists portal_user string string bool
  | Call_helper_page_transfer request string string bool
  | Call_get_helper_page_url string string int int
  | Call_preview portal_user string "string option" pyval
  | Call_revoke_globus_tokens portal_user
  | Call_django_logout request

datatype loglevel = LogDebug | LogError | LogException

section \<open>Handler state and sequencing\<close>

text \<open>
  The state a handler runs in: the request (whose session and messages it may change), the
  calls made so far, the log records written so far (level, message, arguments) and the
  handler's local \<^verbatim>\<open>context\<close> dictionary. A statement maps a state to a new state and either
  a value or the exception it raised; an exception keeps every change made before it.
\<close>

record state =
  req :: request
  calls :: "call list"
  logs :: "(loglevel \<times> pyval \<times> pyval list) list"
  ctx :: pydict

type_synonym 'a stmt = "state \<Rightarrow> state \<times> (exn + 'a)"

definition init :: "request \<Rightarrow> state" where
  "init request = \<lparr>req = request, calls = [], logs = [], ctx = []\<rparr>"

definition returnM :: "'a \<Rightarrow> 'a stmt" where
  "returnM x s = (s, Inr x)"

definition raiseM :: "exn \<Rightarrow> 'a stmt" where
  "raiseM e s = (s, Inl e)"

definition bindM :: "'a stmt \<Rightarrow> ('a \<Rightarrow> 'b stmt) \<Rightarrow> 'b stmt" where
  "bindM m f s = (case m s of (s', Inl e) \<Rightarrow> (s', Inl e) | (s', Inr x) \<Rightarrow> f x s')"

definition thenM :: "unit stmt \<Rightarrow> 'b stmt \<Rightarrow> 'b stmt" where
  "thenM m k = bindM m (\<lambda>_. k)"

text \<open>The outcome of a computation that touches no state.\<close>

definition liftM :: "exn + 'a \<Rightarrow> 'a stmt" where
  "liftM r s = (s, r)"

text \<open>A call of a helper: the call is recorded, its outcome is the helper's.\<close>

definition callM :: "call \<Rightarrow> exn + 'a \<Rightarrow> 'a stmt" where
  "callM c r s = (s\<lparr>calls := calls s @ [c]\<rparr>, r)"

text \<open>
  \<^verbatim>\<open>try: body except ...\<close>: \<open>handlers e\<close> is the body of the first clause that matches the
  exception \<open>e\<close>, or \<open>None\<close> when no clause matches and \<open>e\<close> propagates. An exception raised
  by a clause's body propagates.
\<close>

definition try_except :: "unit stmt \<Rightarrow> (exn \<Rightarrow> unit stmt option) \<Rightarrow> unit stmt" where
  "try_except body handlers s =
     (case body s of
        (s', Inr x) \<Rightarrow> (s', Inr x)
      | (s', Inl e) \<Rightarrow> (case handlers e of None \<Rightarrow> (s', Inl e) | Some h \<Rightarrow> h s'))"

definition get_request :: "request stmt" where
  "get_request s = (s, Inr (req s))"

definition get_context :: "pydict stmt" where
  "get_context s = (s, Inr (ctx s))"

definition set_context :: "pydict \<Rightarrow> unit stmt" where
  "set_context c s = (s\<lparr>ctx := c\<rparr>, Inr ())"

text \<open>\<^verbatim>\<open>context[k] = v\<close>, \<^verbatim>\<open>request.session[k] = v\<close>, \<^verbatim>\<open>messages.error(request, v)\<close>, \<^verbatim>\<open>log.<level>(msg, *args)\<close>.\<close>

definition context_set :: "string \<Rightarrow> pyval \<Rightarrow> unit stmt" where
  "context_set k v s = (s\<lparr>ctx := AList.update k v (ctx s)\<rparr>, Inr ())"

definition session_set :: "string \<Rightarrow> pyval \<Rightarrow> unit stmt" where
  "session_set k v s =
     (s\<lparr>req := (req s)\<lparr>session := AList.update k v (session (req s))\<rparr>\<rparr>, Inr ())"

definition messages_error :: "pyval \<Rightarrow> unit stmt" where
  "messages_error v s =
     (s\<lparr>req := (req s)\<lparr>messages := messages (req s) @ [(''error'', v)]\<rparr>\<rparr>, Inr ())"

definition log :: "loglevel \<Rightarrow> pyval \<Rightarrow> pyval list \<Rightarrow> unit stmt" where
  "log lvl msg args s = (s\<lparr>logs := logs s @ [(lvl, msg, args)]\<rparr>, Inr ())"

text \<open>
  \<^verbatim>\<open>return render(request, get_template(index, name), context)\<close>: the template is looked up
  first, then the page is rendered with the context as it stands.
\<close>

definition render :: "env \<Rightarrow> string \<Rightarrow> string \<Rightarrow> response stmt" where
  "render env index name =
     bindM (callM (Call_get_template index name) (get_template env index name)) (\<lambda>template.
     bindM get_context (\<lambda>context.
     returnM (Render template context)))"

section \<open>The handlers\<close>

subsection \<open>\<^verbatim>\<open>index_selection\<close> and \<^verbatim>\<open>detail\<close>\<close>

definition index_selection :: "env \<Rightarrow> request \<Rightarrow> state \<times> (exn + response)" where
  "index_selection env request =
     (bindM (callM (Call_get_setting ''SEARCH_INDEXES'') (get_setting env ''SEARCH_INDEXES'')) (\<lambda>indexes.
      returnM (Render ''index-selection.html'' [(''search_indexes'', indexes)])))
     (init request)"

text \<open>
  The arguments of \<^verbatim>\<open>render\<close> are evaluated from left to right: the template is looked up
  before the subject is fetched.
\<close>

definition detail :: "env \<Rightarrow> request \<Rightarrow> string \<Rightarrow> string \<Rightarrow> state \<times> (exn + response)" where
  "detail env request index subject =
     (bindM (callM (Call_get_template index ''detail-overview.html'')
               (get_template env index ''detail-overview.html'')) (\<lambda>template.
      bindM (callM (Call_get_subject index subject (user request))
               (get_subject env index subject (user request))) (\<lambda>subj.
      returnM (Render template subj))))
     (init request)"

subsection \<open>\<^verbatim>\<open>search\<close>\<close>

text \<open>
  \<^verbatim>\<open>request.GET.get('page', 1)\<close>: the parameter's string, or the integer 1. In the handler,
  \<^verbatim>\<open>context['search']\<close> is the dictionary \<open>result\<close> that \<^verbatim>\<open>post_search\<close> has just returned.
\<close>

definition page_param :: "request \<Rightarrow> pyval" where
  "page_param request = (case map_of (GET request) ''page'' of None \<Rightarrow> PInt 1 | Some p \<Rightarrow> PStr p)"

definition search :: "env \<Rightarrow> request \<Rightarrow> string \<Rightarrow> state \<times> (exn + response)" where
  "search env request index =
     (thenM (set_context [])
     (bindM (callM (Call_get_search_query request) (get_search_query env request)) (\<lambda>query.
      thenM
        (if truthy query then
           bindM (callM (Call_get_search_filters request) (get_search_filters env request)) (\<lambda>filters.
           bindM (callM (Call_post_search index query filters (user request) (page_param request))
                    (post_search env index query filters (user request) (page_param request))) (\<lambda>result.
           thenM (context_set ''search'' (PDict result))
          (bindM (liftM (urlparse env (full_path request))) (\<lambda>parsed.
           thenM (session_set ''search'' (PDict
                    [(''full_query'', PStr (parse_result.query parsed)),
                     (''query'', query),
                     (''filters'', filters),
                     (''index'', PStr index)]))
          (let error = dict_get result ''error'' in
           if truthy error then messages_error error else returnM ())))))
         else returnM ())
        (render env index ''search.html''))))
     (init request)"

subsection \<open>\<^verbatim>\<open>detail_transfer\<close>\<close>

text \<open>
  \<^verbatim>\<open>urlparse(x)\<close> for an arbitrary value \<open>x\<close>, followed by \<^verbatim>\<open>ep.replace(':', '')\<close> on the
  network location: on a string it is the standard library's parser; a truthy value of another
  type has no \<^verbatim>\<open>decode\<close> method (\<open>AttributeError\<close>), and a falsy one is parsed as empty bytes, on
  which \<^verbatim>\<open>replace\<close> with string arguments is a \<open>TypeError\<close>. No call is made in between.
\<close>

definition py_urlparse :: "env \<Rightarrow> pyval \<Rightarrow> exn + parse_result" where
  "py_urlparse env v =
     (case v of
        PStr s \<Rightarrow> urlparse env s
      | _ \<Rightarrow> if truthy v then Inl AttributeError else Inl TypeError)"

text \<open>\<^verbatim>\<open>'{}'.format(v)\<close>: a string prints as itself.\<close>

definition py_str :: "env \<Rightarrow> pyval \<Rightarrow> string" where
  "py_str env v = (case v of PStr s \<Rightarrow> s | _ \<Rightarrow> str_of env v)"

definition task_url :: "string \<Rightarrow> string" where
  "task_url task_id = ''https://www.globus.org/app/activity/'' @ task_id @ ''/overview''"

text \<open>The body of the \<^verbatim>\<open>try\<close> block (lines 160 to 182).\<close>

definition transfer_try :: "env \<Rightarrow> string \<Rightarrow> string \<Rightarrow> unit stmt" where
  \<open>transfer_try env index subject =
     bindM get_request (\<lambda>request.
     bindM get_context (\<lambda>context.
     if map_of context ''remote_file_manifest'' = None then
       raiseM (ValueError (''Please add "remote_file_manifest" to "fields" for '' @ index
                            @ '' in order to use transfer.''))
     else if \<not> truthy (dict_get context ''remote_file_manifest'') then
       raiseM (ValueError (''"remote_file_manifest" not found in search metadata for index ''
                            @ index @ ''. Cannot start Transfer.''))
     else
       bindM (liftM (subscript_str (PDict context) ''remote_file_manifest'')) (\<lambda>manifest.
       bindM (liftM (subscript_0 manifest)) (\<lambda>entry.
       bindM (liftM (subscript_str entry ''url'')) (\<lambda>url.
       bindM (liftM (py_urlparse env url)) (\<lambda>parsed.
       let ep = netloc parsed; path = path parsed;
           ep = filter (\<lambda>c. c \<noteq> CHR '':'') ep
       in
       bindM (callM (Call_check_exists (user request) ep path True)
                (check_exists env (user request) ep path True)) (\<lambda>_.
       thenM
         (if http_method request = ''POST'' then
            bindM (callM (Call_helper_page_transfer request ep path True)
                     (helper_page_transfer env request ep path True)) (\<lambda>task.
            bindM (liftM (subscript_str task ''task_id'')) (\<lambda>task_id.
            context_set ''transfer_link'' (PStr (task_url (py_str env task_id)))))
          else returnM ())
         (let this_url = reverse env ''detail-transfer'' [index, subject];
              full_url = build_absolute_uri env request this_url
          in
          bindM (callM (Call_get_helper_page_url full_url full_url 1 0)
                   (get_helper_page_url env full_url full_url 1 0)) (\<lambda>link.
          context_set ''helper_page_link'' link)))))))))\<close>

text \<open>The two \<^verbatim>\<open>except\<close> clauses (lines 183 to 192), in the order they are tried.\<close>

fun transfer_except :: "exn \<Rightarrow> unit stmt option" where
  "transfer_except (TransferAPIError code message) = Some
     (thenM (context_set ''detail_error'' (PExn (TransferAPIError code message)))
     (if code = ''AuthenticationFailed'' \<and> message = ''Token is not active'' then
        raiseM ExpiredGlobusToken
      else if code \<notin> set [''EndpointPermissionDenied''] then
        log LogError (PStr ''Unexpected Error found during transfer request'')
          [PExn (TransferAPIError code message)]
      else returnM ()))"
| "transfer_except (ValueError msg) = Some (log LogError (PExn (ValueError msg)) [])"
| "transfer_except e = None"

definition detail_transfer :: "env \<Rightarrow> request \<Rightarrow> string \<Rightarrow> string \<Rightarrow> state \<times> (exn + response)" where
  "detail_transfer env request index subject =
     (bindM (callM (Call_get_subject index subject (user request))
               (get_subject env index subject (user request))) (\<lambda>subj.
      thenM (set_context subj)
     (thenM
        (if is_authenticated (user request) then
           try_except (transfer_try env index subject) transfer_except
         else returnM ())
        (render env index ''detail-transfer.html''))))
     (init request)"

subsection \<open>\<^verbatim>\<open>detail_preview\<close>\<close>

text \<open>The body of the \<^verbatim>\<open>try\<close> block (lines 200 to 208).\<close>

definition preview_try :: "env \<Rightarrow> string \<Rightarrow> string option \<Rightarrow> string option \<Rightarrow> unit stmt" where
  "preview_try env subject endpoint url_path =
     bindM get_request (\<lambda>request.
     let scope = map_of (GET request) ''scope'' in
     thenM
       (if \<not> (truthy_opt endpoint \<or> truthy_opt url_path \<or> truthy_opt scope) then
          thenM (log LogError (PStr (''Preview Error: Endpoint, Path, or Scope not given. (Got: ''
                    @ fmt_opt endpoint @ '', '' @ fmt_opt url_path @ '', '' @ fmt_opt scope
                    @ '')'')) [])
                (raiseM (PreviewURLNotFound subject))
        else returnM ())
       (let url = ''https://'' @ fmt_opt endpoint @ ''/'' @ fmt_opt url_path in
        thenM (log LogDebug (PStr (''Previewing with url: '' @ url)) [])
       (bindM (callM (Call_get_setting ''PREVIEW_DATA_SIZE'')
                 (get_setting env ''PREVIEW_DATA_SIZE'')) (\<lambda>size.
        bindM (callM (Call_preview (user request) url scope size)
                 (preview env (user request) url scope size)) (\<lambda>data.
        context_set ''preview_data'' data)))))"

text \<open>The \<^verbatim>\<open>code\<close> attribute of an instance of \<open>PreviewException\<close> or of a subclass.\<close>

fun preview_exception_code :: "env \<Rightarrow> exn \<Rightarrow> string option" where
  "preview_exception_code env (PreviewException c) = Some c"
| "preview_exception_code env (PreviewURLNotFound subject) = Some (preview_url_not_found_code env)"
| "preview_exception_code env e = None"

text \<open>The \<^verbatim>\<open>except PreviewException as pe\<close> clause (lines 209 to 213).\<close>

definition preview_except :: "env \<Rightarrow> exn \<Rightarrow> unit stmt option" where
  "preview_except env pe =
     (case preview_exception_code env pe of
        None \<Rightarrow> None
      | Some code \<Rightarrow> Some
         (thenM (if code \<in> set [''UnexpectedError'', ''ServerError'']
                 then log LogException (PExn pe) [] else returnM ())
         (thenM (context_set ''detail_error'' (PExn pe))
                (log LogDebug (PStr (''User error: '' @ str_of env (PExn pe))) []))))"

definition detail_preview ::
  "env \<Rightarrow> request \<Rightarrow> string \<Rightarrow> string \<Rightarrow> string option \<Rightarrow> string option
     \<Rightarrow> state \<times> (exn + response)" where
  "detail_preview env request index subject endpoint url_path =
     (bindM (callM (Call_get_subject index subject (user request))
               (get_subject env index subject (user request))) (\<lambda>subj.
      thenM (set_context subj)
     (thenM (try_except (preview_try env subject endpoint url_path) (preview_except env))
            (render env index ''detail-preview.html''))))
     (init request)"

subsection \<open>\<^verbatim>\<open>logout\<close>\<close>

text \<open>
  \<^verbatim>\<open>django_logout(request)\<close> replaces the user and the session of the request in place.
\<close>

definition django_logout_stmt :: "env \<Rightarrow> unit stmt" where
  "django_logout_stmt env s =
     (let (u, sess) = django_logout env (req s) in
      (s\<lparr>calls := calls s @ [Call_django_logout (req s)],
         req := (req s)\<lparr>user := u, session := sess\<rparr>\<rparr>, Inr ()))"

text \<open>
  \<^verbatim>\<open>redirect(to)\<close>: the argument is resolved to a URL, which may raise, and the response
  redirects to that URL.
\<close>

definition redirect :: "env \<Rightarrow> string \<Rightarrow> response stmt" where
  "redirect env to =
     bindM (liftM (resolve_url env to)) (\<lambda>url.
     returnM (Redirect url))"

definition logout :: "env \<Rightarrow> request \<Rightarrow> string \<Rightarrow> state \<times> (exn + response)" where
  "logout env request next =
     (thenM
        (if is_authenticated (user request) then
           thenM (callM (Call_revoke_globus_tokens (user request))
                    (revoke_globus_tokens env (user request)))
                 (django_logout_stmt env)
         else returnM ())
        (bindM get_request (\<lambda>request.
         redirect env (case map_of (GET request) ''next'' of None \<Rightarrow> next | Some n \<Rightarrow> n))))
     (init request)"

text \<open>The handler with its default argument, \<^verbatim>\<open>next='/'\<close>.\<close>

definition logout_default :: "env \<Rightarrow> request \<Rightarrow> state \<times> (exn + response)" where
  "logout_default env request = logout env request ''/''"

section \<open>Intermediate states and sample inputs\<close>

text \<open>
  The state of \<^verbatim>\<open>detail_transfer\<close> and \<^verbatim>\<open>detail_preview\<close> when \<^verbatim>\<open>get_subject\<close> has returned
  \<open>subj\<close> and the handler enters its \<^verbatim>\<open>try\<close> block.
\<close>

definition after_get_subject :: "request \<Rightarrow> string \<Rightarrow> string \<Rightarrow> pydict \<Rightarrow> state" where
  "after_get_subject request index subject subj =
     \<lparr>req = request, calls = [Call_get_subject index subject (user request)], logs = [],
      ctx = subj\<rparr>"

text \<open>
  A sample environment on which the theorems below are instantiated. Every helper returns;
  the subject carries one remote file; \<open>urlparse\<close> knows the two URLs the samples use; the
  only route \<open>resolve_url\<close> knows by name is \<^verbatim>\<open>logout\<close>, at \<^verbatim>\<open>/logout/\<close>.
\<close>

definition sample_subject :: "string \<Rightarrow> pydict" where
  "sample_subject subject =
     [(''subject'', PStr subject),
      (''remote_file_manifest'', PList [PDict [(''url'', PStr ''globus://ep1:/data/file.txt'')]])]"

definition sample_urlparse :: "string \<Rightarrow> exn + parse_result" where
  "sample_urlparse s =
     (if s = ''globus://ep1:/data/file.txt''
        then Inr \<lparr>netloc = ''ep1:'', path = ''/data/file.txt'', query = []\<rparr>
      else if s = ''/search/idx/?q=foo''
        then Inr \<lparr>netloc = [], path = ''/search/idx/'', query = ''q=foo''\<rparr>
      else Inl (ValueError ''Invalid URL''))"

definition sample_resolve_url :: "string \<Rightarrow> exn + string" where
  "sample_resolve_url to =
     (if take 2 to = ''./'' \<or> take 3 to = ''../'' then Inr to
      else if to = ''logout'' then Inr ''/logout/''
      else if CHR ''/'' \<notin> set to \<and> CHR ''.'' \<notin> set to then Inl (NoReverseMatch to)
      else Inr to)"

definition env0 :: env where
  "env0 =
     \<lparr>get_setting = (\<lambda>name. Inr (PInt 2048)),
      get_search_query = (\<lambda>r. Inr (PStr (case map_of (GET r) ''q'' of None \<Rightarrow> [] | Some q \<Rightarrow> q))),
      get_search_filters = (\<lambda>r. Inr (PList [])),
      post_search = (\<lambda>index q filters u page. Inr [(''search_results'', PList [])]),
      get_subject = (\<lambda>index subject u. Inr (sample_subject subject)),
      get_template = (\<lambda>index name. Inr name),
      check_exists = (\<lambda>u ep p raises. Inr (PBool True)),
      helper_page_transfer = (\<lambda>r ep p dest. Inr (PDict [(''task_id'', PStr ''t-1'')])),
      get_helper_page_url = (\<lambda>a c folders files. Inr (PStr (''https://helper.example/?action='' @ a))),
      preview = (\<lambda>u url scope n. Inr (PStr ''a,b,c'')),
      revoke_globus_tokens = (\<lambda>u. Inr ()),
      urlparse = sample_urlparse,
      reverse = (\<lambda>name args. ''/detail-transfer/idx/subj/''),
      build_absolute_uri = (\<lambda>r p. ''https://portal.example'' @ p),
      django_logout = (\<lambda>r. (\<lparr>is_authenticated = False, username = []\<rparr>, [])),
      resolve_url = sample_resolve_url,
      str_of = (\<lambda>v. ''<object>''),
      preview_url_not_found_code = ''PreviewURLNotFound''\<rparr>"

definition anonymous :: portal_user where
  "anonymous = \<lparr>is_authenticated = False, username = []\<rparr>"

definition alice :: portal_user where
  "alice = \<lparr>is_authenticated = True, username = ''alice''\<rparr>"

definition sample_request :: "portal_user \<Rightarrow> string \<Rightarrow> (string \<times> string) list \<Rightarrow> request" where
  "sample_request u m params =
     \<lparr>user = u, http_method = m, GET = params, full_path = ''/search/idx/?q=foo'',
      session = [(''search'', PStr ''previous'')], messages = []\<rparr>"

section \<open>Properties of the handlers\<close>

lemmas stmt_defs = returnM_def raiseM_def bindM_def thenM_def liftM_def callM_def try_except_def
  get_request_def get_context_def set_context_def context_set_def session_set_def
  messages_error_def log_def render_def init_def

lemmas sample_defs = env0_def sample_subject_def sample_urlparse_def sample_resolve_url_def
  anonymous_def alice_def sample_request_def

subsection \<open>\<^verbatim>\<open>search\<close>\<close>

text \<open>
  Claim C5. When \<^verbatim>\<open>get_search_query\<close> returns a truthy query and \<^verbatim>\<open>get_search_filters\<close>,
  \<^verbatim>\<open>post_search\<close> and \<^verbatim>\<open>urlparse\<close> return, the search call has been made and the session of the
  request differs from the incoming one only at the key \<^verbatim>\<open>'search'\<close>, which now holds exactly
  the dictionary with \<^verbatim>\<open>full_query\<close> (the query component of the requested full path),
  \<^verbatim>\<open>query\<close>, \<^verbatim>\<open>filters\<close> and \<^verbatim>\<open>index\<close>, whatever it held before.
\<close>

theorem search_sets_session:
  assumes "get_search_query env request = Inr q"
      and "truthy q"
      and "get_search_filters env request = Inr filters"
      and "post_search env index q filters (user request) (page_param request) = Inr result"
      and "urlparse env (full_path request) = Inr parsed"
  shows "session (req (fst (search env request index))) =
           AList.update ''search''
             (PDict [(''full_query'', PStr (parse_result.query parsed)), (''query'', q),
                     (''filters'', filters), (''index'', PStr index)])
             (session request)
       \<and> map_of (session (req (fst (search env request index)))) ''search'' =
           Some (PDict [(''full_query'', PStr (parse_result.query parsed)), (''query'', q),
                        (''filters'', filters), (''index'', PStr index)])
       \<and> Call_post_search index q filters (user request) (page_param request)
           \<in> set (calls (fst (search env request index)))"
  using assms
  by (simp add: search_def stmt_defs Let_def update_conv' split: sum.splits)

theorem search_sets_session_witness:
  "session (req (fst (search env0 (sample_request alice ''GET'' [(''q'', ''foo'')]) ''idx''))) =
     [(''search'', PDict [(''full_query'', PStr ''q=foo''), (''query'', PStr ''foo''),
                          (''filters'', PList []), (''index'', PStr ''idx'')])]"
proof -
  let ?r = "sample_request alice ''GET'' [(''q'', ''foo'')]"
  have q: "get_search_query env0 ?r = Inr (PStr ''foo'')"
    by (simp add: sample_defs)
  have t: "truthy (PStr ''foo'')" by simp
  have f: "get_search_filters env0 ?r = Inr (PList [])"
    by (simp add: sample_defs)
  have p: "post_search env0 ''idx'' (PStr ''foo'') (PList []) (user ?r) (page_param ?r)
             = Inr [(''search_results'', PList [])]"
    by (simp add: sample_defs)
  have u: "urlparse env0 (full_path ?r)
             = Inr \<lparr>netloc = [], path = ''/search/idx/'', query = ''q=foo''\<rparr>"
    by (simp add: sample_defs)
  from search_sets_session[OF q t f p u] show ?thesis
    by (simp add: sample_request_def)
qed

text \<open>
  Claim C6. When \<^verbatim>\<open>get_search_query\<close> (which consults the query parameter and the saved
  session query) returns a falsy query and the template is found, the handler calls nothing
  but \<^verbatim>\<open>get_search_query\<close> and \<^verbatim>\<open>get_template\<close>: no search call is made, the request and
  with it the session are as they came in, nothing is logged, and the search page is rendered
  with the empty context.
\<close>

theorem search_empty_query:
  assumes "get_search_query env request = Inr q"
      and "\<not> truthy q"
      and "get_template env index ''search.html'' = Inr template"
  shows "search env request index =
     (\<lparr>req = request,
       calls = [Call_get_search_query request, Call_get_template index ''search.html''],
       logs = [], ctx = []\<rparr>,
      Inr (Render template []))"
  using assms by (simp add: search_def stmt_defs)

theorem search_empty_query_witness:
  "search env0 (sample_request alice ''GET'' []) ''idx'' =
     (\<lparr>req = sample_request alice ''GET'' [],
       calls = [Call_get_search_query (sample_request alice ''GET'' []),
                Call_get_template ''idx'' ''search.html''],
       logs = [], ctx = []\<rparr>,
      Inr (Render ''search.html'' []))"
proof -
  let ?r = "sample_request alice ''GET'' []"
  have q: "get_search_query env0 ?r = Inr (PStr [])"
    by (simp add: sample_defs)
  have t: "\<not> truthy (PStr [])" by simp
  have g: "get_template env0 ''idx'' ''search.html'' = Inr ''search.html''"
    by (simp add: sample_defs)
  from search_empty_query[OF q t g] show ?thesis .
qed

text \<open>
  Claim C7. When the result of the search call has a truthy \<^verbatim>\<open>'error'\<close> entry (and the other
  helpers return), that entry is appended to the request's messages at level \<^verbatim>\<open>error\<close>, no
  exception leaves the handler, and the search page is rendered with the error-bearing result
  under \<^verbatim>\<open>'search'\<close> in the context.
\<close>

theorem search_error_message:
  assumes "get_search_query env request = Inr q"
      and "truthy q"
      and "get_search_filters env request = Inr filters"
      and "post_search env index q filters (user request) (page_param request) = Inr result"
      and "urlparse env (full_path request) = Inr parsed"
      and "truthy (dict_get result ''error'')"
      and "get_template env index ''search.html'' = Inr template"
  shows "search env request index =
     (\<lparr>req = request
         \<lparr>session := AList.update ''search''
             (PDict [(''full_query'', PStr (parse_result.query parsed)), (''query'', q),
                     (''filters'', filters), (''index'', PStr index)])
             (session request),
          messages := messages request @ [(''error'', dict_get result ''error'')]\<rparr>,
       calls = [Call_get_search_query request, Call_get_search_filters request,
                Call_post_search index q filters (user request) (page_param request),
                Call_get_template index ''search.html''],
       logs = [], ctx = [(''search'', PDict result)]\<rparr>,
      Inr (Render template [(''search'', PDict result)]))"
  using assms by (simp add: search_def stmt_defs Let_def)

theorem search_error_message_witness:
  "snd (search (env0\<lparr>post_search := \<lambda>index q filters u page. Inr [(''error'', PStr ''bad query'')]\<rparr>)
         (sample_request alice ''GET'' [(''q'', ''foo'')]) ''idx'') =
     Inr (Render ''search.html'' [(''search'', PDict [(''error'', PStr ''bad query'')])])
   \<and> messages (req (fst (search
         (env0\<lparr>post_search := \<lambda>index q filters u page. Inr [(''error'', PStr ''bad query'')]\<rparr>)
         (sample_request alice ''GET'' [(''q'', ''foo'')]) ''idx''))) =
     [(''error'', PStr ''bad query'')]"
proof -
  let ?e = "env0\<lparr>post_search := \<lambda>index q filters u page. Inr [(''error'', PStr ''bad query'')]\<rparr>"
  let ?r = "sample_request alice ''GET'' [(''q'', ''foo'')]"
  have q: "get_search_query ?e ?r = Inr (PStr ''foo'')"
    by (simp add: sample_defs)
  have t: "truthy (PStr ''foo'')" by simp
  have f: "get_search_filters ?e ?r = Inr (PList [])"
    by (simp add: sample_defs)
  have p: "post_search ?e ''idx'' (PStr ''foo'') (PList []) (user ?r) (page_param ?r)
             = Inr [(''error'', PStr ''bad query'')]"
    by simp
  have u: "urlparse ?e (full_path ?r)
             = Inr \<lparr>netloc = [], path = ''/search/idx/'', query = ''q=foo''\<rparr>"
    by (simp add: sample_defs)
  have e: "truthy (dict_get [(''error'', PStr ''bad query'')] ''error'')"
    by (simp add: dict_get_def)
  have g: "get_template ?e ''idx'' ''search.html'' = Inr ''search.html''"
    by (simp add: sample_defs)
  from search_error_message[OF q t f p u e g] show ?thesis
    by (simp add: sample_request_def dict_get_def)
qed

subsection \<open>\<^verbatim>\<open>logout\<close>\<close>

text \<open>
  What the handler does, whatever the redirect resolves to: the value handed to
  \<^verbatim>\<open>redirect\<close> is the \<^verbatim>\<open>next\<close> query parameter when the request has one and the \<^verbatim>\<open>next\<close>
  argument otherwise; for a user who is not authenticated no call is made and the request, with
  its session, is untouched; for an authenticated user the tokens are revoked first and, once
  that call has returned, the Django logout runs on the request. The outcome is the redirect
  to the URL the value resolves to, or the exception of the resolution.
\<close>

lemma logout_outcome:
  "(\<not> is_authenticated (user request) \<longrightarrow>
      logout env request next =
        (init request,
         case resolve_url env (case map_of (GET request) ''next'' of None \<Rightarrow> next | Some n \<Rightarrow> n) of
           Inl e \<Rightarrow> Inl e | Inr url \<Rightarrow> Inr (Redirect url)))
   \<and> (is_authenticated (user request) \<longrightarrow>
        Call_revoke_globus_tokens (user request) \<in> set (calls (fst (logout env request next))))
   \<and> (is_authenticated (user request) \<and> revoke_globus_tokens env (user request) = Inr () \<longrightarrow>
        logout env request next =
          (\<lparr>req = request\<lparr>user := fst (django_logout env request),
                          session := snd (django_logout env request)\<rparr>,
            calls = [Call_revoke_globus_tokens (user request), Call_django_logout request],
            logs = [], ctx = []\<rparr>,
           case resolve_url env (case map_of (GET request) ''next'' of None \<Rightarrow> next | Some n \<Rightarrow> n) of
             Inl e \<Rightarrow> Inl e | Inr url \<Rightarrow> Inr (Redirect url)))
   \<and> logout_default env request = logout env request ''/''"
  by (simp add: logout_def logout_default_def redirect_def stmt_defs django_logout_stmt_def
        split: prod.splits sum.splits)

text \<open>
  Claim C10 says, with the handler's docstring, that the user is redirected to the value of the
  \<^verbatim>\<open>next\<close> query parameter. The handler hands that value to \<^verbatim>\<open>redirect\<close>, which takes it for
  the name of a route first. With the sample routes: the anonymous request \<^verbatim>\<open>?next=home\<close> is
  not redirected, the handler raises \<open>NoReverseMatch\<close>; \<^verbatim>\<open>?next=logout\<close> is redirected to
  \<^verbatim>\<open>/logout/\<close>, not to the value; and for an authenticated user an empty \<^verbatim>\<open>next\<close> raises after
  the tokens are revoked and the session is logged out. A value that is a path, as the default
  \<^verbatim>\<open>'/'\<close>, is redirected to as such.
\<close>

theorem logout_next_resolved_as_route_name:
  "logout env0 (sample_request anonymous ''GET'' [(''next'', ''home'')]) ''/'' =
     (init (sample_request anonymous ''GET'' [(''next'', ''home'')]),
      Inl (NoReverseMatch ''home''))
   \<and> logout env0 (sample_request anonymous ''GET'' [(''next'', ''logout'')]) ''/'' =
     (init (sample_request anonymous ''GET'' [(''next'', ''logout'')]),
      Inr (Redirect ''/logout/''))
   \<and> logout env0 (sample_request alice ''GET'' [(''next'', [])]) ''/'' =
     (\<lparr>req = (sample_request alice ''GET'' [(''next'', [])])\<lparr>user := anonymous, session := []\<rparr>,
       calls = [Call_revoke_globus_tokens alice,
                Call_django_logout (sample_request alice ''GET'' [(''next'', [])])],
       logs = [], ctx = []\<rparr>,
      Inl (NoReverseMatch []))
   \<and> logout_default env0 (sample_request anonymous ''GET'' []) =
     (init (sample_request anonymous ''GET'' []), Inr (Redirect ''/''))"
  by (simp add: logout_def logout_default_def redirect_def stmt_defs django_logout_stmt_def
        sample_defs)

subsection \<open>\<^verbatim>\<open>detail_transfer\<close>\<close>

text \<open>
  Claim C2. For a user who is not authenticated, once \<^verbatim>\<open>get_subject\<close> has returned and the
  template is found, the handler makes exactly two calls, \<^verbatim>\<open>get_subject\<close> and \<^verbatim>\<open>get_template\<close>
  (no existence check, no transfer, no helper-page URL), changes nothing in the request, and
  renders the page with exactly the subject as its context.
\<close>

theorem detail_transfer_unauthenticated:
  assumes "\<not> is_authenticated (user request)"
      and "get_subject env index subject (user request) = Inr subj"
      and "get_template env index ''detail-transfer.html'' = Inr template"
  shows "detail_transfer env request index subject =
     (\<lparr>req = request,
       calls = [Call_get_subject index subject (user request),
                Call_get_template index ''detail-transfer.html''],
       logs = [], ctx = subj\<rparr>,
      Inr (Render template subj))"
  using assms by (simp add: detail_transfer_def stmt_defs)

theorem detail_transfer_unauthenticated_witness:
  "is_authenticated (user (sample_request anonymous ''POST'' [])) = False
   \<and> detail_transfer env0 (sample_request anonymous ''POST'' []) ''idx'' ''subj'' =
     (\<lparr>req = sample_request anonymous ''POST'' [],
       calls = [Call_get_subject ''idx'' ''subj'' anonymous,
                Call_get_template ''idx'' ''detail-transfer.html''],
       logs = [], ctx = sample_subject ''subj''\<rparr>,
      Inr (Render ''detail-transfer.html'' (sample_subject ''subj'')))"
proof -
  let ?r = "sample_request anonymous ''POST'' []"
  have a: "\<not> is_authenticated (user ?r)"
    by (simp add: sample_defs)
  have s: "get_subject env0 ''idx'' ''subj'' (user ?r) = Inr (sample_subject ''subj'')"
    by (simp add: env0_def)
  have g: "get_template env0 ''idx'' ''detail-transfer.html'' = Inr ''detail-transfer.html''"
    by (simp add: env0_def)
  from detail_transfer_unauthenticated[OF a s g] a show ?thesis
    by (simp add: sample_request_def)
qed

text \<open>For an authenticated user the handler is the \<^verbatim>\<open>try\<close> statement followed by the rendering.\<close>

lemma detail_transfer_authenticated:
  assumes "is_authenticated (user request)"
      and "get_subject env index subject (user request) = Inr subj"
  shows "detail_transfer env request index subject =
     thenM (try_except (transfer_try env index subject) transfer_except)
           (render env index ''detail-transfer.html'')
       (after_get_subject request index subject subj)"
  using assms
  by (simp add: detail_transfer_def bindM_def thenM_def callM_def set_context_def init_def
        after_get_subject_def)

text \<open>
  Claim C3. For an authenticated user, when the \<^verbatim>\<open>try\<close> block raises a \<open>TransferAPIError\<close>
  (and the template is found), the handler raises \<open>ExpiredGlobusToken\<close> exactly when the
  error's code is \<^verbatim>\<open>'AuthenticationFailed'\<close> and its message is \<^verbatim>\<open>'Token is not active'\<close>; in
  every other case it returns the rendered page, whose context is the context at the moment
  of the error with the error stored under \<^verbatim>\<open>'detail_error'\<close>.
\<close>

theorem detail_transfer_api_error:
  assumes "is_authenticated (user request)"
      and "get_subject env index subject (user request) = Inr subj"
      and "transfer_try env index subject (after_get_subject request index subject subj)
             = (s', Inl (TransferAPIError code message))"
      and "get_template env index ''detail-transfer.html'' = Inr template"
  shows "snd (detail_transfer env request index subject) =
     (if code = ''AuthenticationFailed'' \<and> message = ''Token is not active''
      then Inl ExpiredGlobusToken
      else Inr (Render template
             (AList.update ''detail_error'' (PExn (TransferAPIError code message)) (ctx s'))))"
  using assms(3,4)
  by (simp add: detail_transfer_authenticated[OF assms(1,2)] stmt_defs)

theorem detail_transfer_api_error_witness:
  "snd (detail_transfer
          (env0\<lparr>check_exists := \<lambda>u ep p raises.
                   Inl (TransferAPIError ''AuthenticationFailed'' ''Token is not active'')\<rparr>)
          (sample_request alice ''GET'' []) ''idx'' ''subj'') = Inl ExpiredGlobusToken
   \<and> snd (detail_transfer
          (env0\<lparr>check_exists := \<lambda>u ep p raises.
                   Inl (TransferAPIError ''EndpointPermissionDenied'' ''no access'')\<rparr>)
          (sample_request alice ''GET'' []) ''idx'' ''subj'') =
       Inr (Render ''detail-transfer.html''
             (sample_subject ''subj''
              @ [(''detail_error'',
                  PExn (TransferAPIError ''EndpointPermissionDenied'' ''no access''))]))"
proof -
  let ?r = "sample_request alice ''GET'' []"
  let ?s1 = "after_get_subject ?r ''idx'' ''subj'' (sample_subject ''subj'')"
  let ?s2 = "?s1\<lparr>calls := calls ?s1 @ [Call_check_exists alice ''ep1'' ''/data/file.txt'' True]\<rparr>"
  have a: "is_authenticated (user ?r)"
    by (simp add: sample_defs)
  have try_raises: "transfer_try (env0\<lparr>check_exists := \<lambda>u ep p raises. Inl (TransferAPIError c m)\<rparr>)
             ''idx'' ''subj'' ?s1 = (?s2, Inl (TransferAPIError c m))" for c m
    by (simp add: transfer_try_def stmt_defs sample_defs Let_def dict_get_def py_urlparse_def
          after_get_subject_def)
  have s: "get_subject (env0\<lparr>check_exists := f\<rparr>) ''idx'' ''subj'' (user ?r)
             = Inr (sample_subject ''subj'')" for f
    by (simp add: env0_def)
  have g: "get_template (env0\<lparr>check_exists := f\<rparr>) ''idx'' ''detail-transfer.html''
             = Inr ''detail-transfer.html''" for f
    by (simp add: env0_def)
  from detail_transfer_api_error[OF a s try_raises g, of "''AuthenticationFailed''" "''Token is not active''"]
       detail_transfer_api_error[OF a s try_raises g, of "''EndpointPermissionDenied''" "''no access''"]
  show ?thesis
    by (simp add: after_get_subject_def sample_subject_def)
qed

text \<open>
  What the \<^verbatim>\<open>try\<close> block, the \<^verbatim>\<open>except\<close> clauses and the rendering leave alone. Unless
  the method is \<^verbatim>\<open>POST\<close>, the block calls nothing but the existence check and the helper-page
  URL, and never touches \<^verbatim>\<open>'transfer_link'\<close>.
\<close>

lemma transfer_try_no_post:
  assumes "http_method (req s) \<noteq> ''POST''"
      and "transfer_try env index subject s = (s', r)"
  shows "set (calls s') \<subseteq> set (calls s) \<union> {c. \<exists>u e p b. c = Call_check_exists u e p b}
            \<union> {c. \<exists>a b m n. c = Call_get_helper_page_url a b m n}"
    and "map_of (ctx s') ''transfer_link'' = map_of (ctx s) ''transfer_link''"
  using assms
  by (auto simp add: transfer_try_def stmt_defs Let_def update_conv'
           split: if_splits sum.splits)

lemma transfer_except_frame:
  assumes "transfer_except e = Some h" and "h s = (s', r)"
  shows "calls s' = calls s"
    and "map_of (ctx s') ''transfer_link'' = map_of (ctx s) ''transfer_link''"
  using assms
  by (cases e; auto simp add: stmt_defs update_conv' split: if_splits)+

lemma detail_transfer_get_calls:
  assumes "is_authenticated (user request)" and "http_method request \<noteq> ''POST''"
  shows "Call_helper_page_transfer rq e p b
           \<notin> set (calls (fst (detail_transfer env request index subject)))"
proof (cases "get_subject env index subject (user request)")
  case (Inl err)
  then show ?thesis by (simp add: detail_transfer_def stmt_defs)
next
  case (Inr subj)
  let ?s1 = "after_get_subject request index subject subj"
  obtain s2 r2 where t: "transfer_try env index subject ?s1 = (s2, r2)" by fastforce
  have m: "http_method (req ?s1) \<noteq> ''POST''"
    using assms(2) by (simp add: after_get_subject_def)
  have c2: "Call_helper_page_transfer rq e p b \<notin> set (calls s2)"
    using transfer_try_no_post(1)[OF m t] by (auto simp add: after_get_subject_def)
  obtain s3 r3 where x: "try_except (transfer_try env index subject) transfer_except ?s1 = (s3, r3)"
    by fastforce
  have c3: "calls s3 = calls s2"
    using x t transfer_except_frame(1)
    by (auto simp add: try_except_def split: sum.splits option.splits)
  show ?thesis
    using c2 c3 x
    by (auto simp add: detail_transfer_authenticated[OF assms(1) Inr] thenM_def bindM_def
          render_def callM_def get_context_def returnM_def split: sum.splits)
qed

lemma detail_transfer_get_link:
  assumes "is_authenticated (user request)" and "http_method request \<noteq> ''POST''"
      and "get_subject env index subject (user request) = Inr subj"
      and "snd (detail_transfer env request index subject) = Inr (Render t c)"
  shows "map_of c ''transfer_link'' = map_of subj ''transfer_link''"
proof -
  let ?s1 = "after_get_subject request index subject subj"
  obtain s2 r2 where t: "transfer_try env index subject ?s1 = (s2, r2)" by fastforce
  have m: "http_method (req ?s1) \<noteq> ''POST''"
    using assms(2) by (simp add: after_get_subject_def)
  have c2: "map_of (ctx s2) ''transfer_link'' = map_of subj ''transfer_link''"
    using transfer_try_no_post(2)[OF m t] by (simp add: after_get_subject_def)
  obtain s3 r3 where x: "try_except (transfer_try env index subject) transfer_except ?s1 = (s3, r3)"
    by fastforce
  have c3: "map_of (ctx s3) ''transfer_link'' = map_of (ctx s2) ''transfer_link''"
    using x t transfer_except_frame(2)
    by (auto simp add: try_except_def split: sum.splits option.splits)
  show ?thesis
    using c2 c3 x assms(4)
    by (auto simp add: detail_transfer_authenticated[OF assms(1,3)] thenM_def bindM_def
          render_def callM_def get_context_def returnM_def split: sum.splits)
qed

lemma detail_transfer_get_normal:
  assumes "is_authenticated (user request)" and "http_method request \<noteq> ''POST''"
      and "get_subject env index subject (user request) = Inr subj"
      and "map_of subj ''remote_file_manifest'' = Some (PList (PDict d # rest))"
      and "map_of d ''url'' = Some (PStr u)"
      and "urlparse env u = Inr parsed"
      and "check_exists env (user request) (filter (\<lambda>c. c \<noteq> CHR '':'') (netloc parsed))
             (path parsed) True = Inr v"
      and "get_helper_page_url env
             (build_absolute_uri env request (reverse env ''detail-transfer'' [index, subject]))
             (build_absolute_uri env request (reverse env ''detail-transfer'' [index, subject]))
             1 0 = Inr link"
      and "get_template env index ''detail-transfer.html'' = Inr t"
  shows "detail_transfer env request index subject =
     (\<lparr>req = request,
       calls = [Call_get_subject index subject (user request),
                Call_check_exists (user request) (filter (\<lambda>c. c \<noteq> CHR '':'') (netloc parsed))
                  (path parsed) True,
                Call_get_helper_page_url
                  (build_absolute_uri env request (reverse env ''detail-transfer'' [index, subject]))
                  (build_absolute_uri env request (reverse env ''detail-transfer'' [index, subject]))
                  1 0,
                Call_get_template index ''detail-transfer.html''],
       logs = [], ctx = AList.update ''helper_page_link'' link subj\<rparr>,
      Inr (Render t (AList.update ''helper_page_link'' link subj)))"
  using assms(2,4-9)
  by (simp add: detail_transfer_authenticated[OF assms(1,3)] after_get_subject_def
        transfer_try_def stmt_defs dict_get_def py_urlparse_def Let_def)

text \<open>
  Claim C8 does not hold as worded. With a subject whose manifest is empty and which has a
  field named \<^verbatim>\<open>transfer_link\<close>, an authenticated \<^verbatim>\<open>GET\<close> request takes the handler's own
  \<open>ValueError\<close> branch: the only calls are \<^verbatim>\<open>get_subject\<close> and \<^verbatim>\<open>get_template\<close>, so the
  existence check does not run and no \<^verbatim>\<open>'helper_page_link'\<close> is set, and the rendered context,
  which is the subject, contains \<^verbatim>\<open>'transfer_link'\<close>.
\<close>

theorem detail_transfer_get_counterexample:
  "is_authenticated (user (sample_request alice ''GET'' [])) = True
   \<and> http_method (sample_request alice ''GET'' []) = ''GET''
   \<and> calls (fst (detail_transfer
        (env0\<lparr>get_subject := \<lambda>index subject u.
                 Inr [(''remote_file_manifest'', PList []),
                      (''transfer_link'', PStr ''https://elsewhere.example/'')]\<rparr>)
        (sample_request alice ''GET'' []) ''idx'' ''subj'')) =
       [Call_get_subject ''idx'' ''subj'' alice,
        Call_get_template ''idx'' ''detail-transfer.html'']
   \<and> snd (detail_transfer
        (env0\<lparr>get_subject := \<lambda>index subject u.
                 Inr [(''remote_file_manifest'', PList []),
                      (''transfer_link'', PStr ''https://elsewhere.example/'')]\<rparr>)
        (sample_request alice ''GET'' []) ''idx'' ''subj'') =
       Inr (Render ''detail-transfer.html''
             [(''remote_file_manifest'', PList []),
              (''transfer_link'', PStr ''https://elsewhere.example/'')])"
  by (simp add: detail_transfer_def transfer_try_def stmt_defs sample_defs dict_get_def)

text \<open>
  Claim C8, amended. For an authenticated request whose method is not \<^verbatim>\<open>POST\<close> (a \<^verbatim>\<open>GET\<close> in
  particular), whatever the helpers do: \<^verbatim>\<open>helper_page_transfer\<close> is never called, and the
  handler never writes \<^verbatim>\<open>'transfer_link'\<close>, so a rendered context has that entry only as far
  as the subject itself came with one. The existence check and the helper-page link are not
  skipped on such a request: when the first manifest entry's URL parses and the existence
  check, the helper-page URL and the template lookup return, the calls are exactly
  \<^verbatim>\<open>get_subject\<close>, \<^verbatim>\<open>check_exists\<close>, \<^verbatim>\<open>get_helper_page_url\<close>, \<^verbatim>\<open>get_template\<close> and the page is
  rendered with the subject extended by \<^verbatim>\<open>'helper_page_link'\<close>.
\<close>

theorem detail_transfer_get_never_transfers:
  assumes "is_authenticated (user request)" and "http_method request \<noteq> ''POST''"
  shows "(\<forall>rq e p b. Call_helper_page_transfer rq e p b
            \<notin> set (calls (fst (detail_transfer env request index subject))))
       \<and> (\<forall>subj t c. get_subject env index subject (user request) = Inr subj
            \<and> snd (detail_transfer env request index subject) = Inr (Render t c)
           \<longrightarrow> map_of c ''transfer_link'' = map_of subj ''transfer_link'')
       \<and> (\<forall>subj d rest u parsed v link t.
             get_subject env index subject (user request) = Inr subj
           \<and> map_of subj ''remote_file_manifest'' = Some (PList (PDict d # rest))
           \<and> map_of d ''url'' = Some (PStr u)
           \<and> urlparse env u = Inr parsed
           \<and> check_exists env (user request) (filter (\<lambda>c. c \<noteq> CHR '':'') (netloc parsed))
                (path parsed) True = Inr v
           \<and> get_helper_page_url env
                (build_absolute_uri env request (reverse env ''detail-transfer'' [index, subject]))
                (build_absolute_uri env request (reverse env ''detail-transfer'' [index, subject]))
                1 0 = Inr link
           \<and> get_template env index ''detail-transfer.html'' = Inr t
           \<longrightarrow> detail_transfer env request index subject =
                (\<lparr>req = request,
                  calls = [Call_get_subject index subject (user request),
                           Call_check_exists (user request)
                             (filter (\<lambda>c. c \<noteq> CHR '':'') (netloc parsed)) (path parsed) True,
                           Call_get_helper_page_url
                             (build_absolute_uri env request
                                (reverse env ''detail-transfer'' [index, subject]))
                             (build_absolute_uri env request
                                (reverse env ''detail-transfer'' [index, subject]))
                             1 0,
                           Call_get_template index ''detail-transfer.html''],
                  logs = [], ctx = AList.update ''helper_page_link'' link subj\<rparr>,
                 Inr (Render t (AList.update ''helper_page_link'' link subj))))"
proof (intro conjI allI impI)
  fix rq e p b
  show "Call_helper_page_transfer rq e p b
          \<notin> set (calls (fst (detail_transfer env request index subject)))"
    by (rule detail_transfer_get_calls[OF assms])
next
  fix subj t c
  assume h: "get_subject env index subject (user request) = Inr subj
          \<and> snd (detail_transfer env request index subject) = Inr (Render t c)"
  show "map_of c ''transfer_link'' = map_of subj ''transfer_link''"
    by (rule detail_transfer_get_link[OF assms conjunct1[OF h] conjunct2[OF h]])
next
  fix subj d rest u parsed v link t
  assume h: "get_subject env index subject (user request) = Inr subj
           \<and> map_of subj ''remote_file_manifest'' = Some (PList (PDict d # rest))
           \<and> map_of d ''url'' = Some (PStr u)
           \<and> urlparse env u = Inr parsed
           \<and> check_exists env (user request) (filter (\<lambda>c. c \<noteq> CHR '':'') (netloc parsed))
                (path parsed) True = Inr v
           \<and> get_helper_page_url env
                (build_absolute_uri env request (reverse env ''detail-transfer'' [index, subject]))
                (build_absolute_uri env request (reverse env ''detail-transfer'' [index, subject]))
                1 0 = Inr link
           \<and> get_template env index ''detail-transfer.html'' = Inr t"
  show "detail_transfer env request index subject =
                (\<lparr>req = request,
                  calls = [Call_get_subject index subject (user request),
                           Call_check_exists (user request)
                             (filter (\<lambda>c. c \<noteq> CHR '':'') (netloc parsed)) (path parsed) True,
                           Call_get_helper_page_url
                             (build_absolute_uri env request
                                (reverse env ''detail-transfer'' [index, subject]))
                             (build_absolute_uri env request
                                (reverse env ''detail-transfer'' [index, subject]))
                             1 0,
                           Call_get_template index ''detail-transfer.html''],
                  logs = [], ctx = AList.update ''helper_page_link'' link subj\<rparr>,
                 Inr (Render t (AList.update ''helper_page_link'' link subj)))"
    using h by (intro detail_transfer_get_normal[OF assms, where u = u and d = d]) simp_all
qed

theorem detail_transfer_get_never_transfers_witness:
  "detail_transfer env0 (sample_request alice ''GET'' []) ''idx'' ''subj'' =
     (\<lparr>req = sample_request alice ''GET'' [],
       calls = [Call_get_subject ''idx'' ''subj'' alice,
                Call_check_exists alice ''ep1'' ''/data/file.txt'' True,
                Call_get_helper_page_url ''https://portal.example/detail-transfer/idx/subj/''
                  ''https://portal.example/detail-transfer/idx/subj/'' 1 0,
                Call_get_template ''idx'' ''detail-transfer.html''],
       logs = [],
       ctx = sample_subject ''subj''
             @ [(''helper_page_link'',
                 PStr ''https://helper.example/?action=https://portal.example/detail-transfer/idx/subj/'')]\<rparr>,
      Inr (Render ''detail-transfer.html''
            (sample_subject ''subj''
             @ [(''helper_page_link'',
                 PStr ''https://helper.example/?action=https://portal.example/detail-transfer/idx/subj/'')])))"
proof -
  let ?r = "sample_request alice ''GET'' []"
  have a: "is_authenticated (user ?r)" and m: "http_method ?r \<noteq> ''POST''"
    by (simp_all add: sample_defs)
  have "get_subject env0 ''idx'' ''subj'' (user ?r) = Inr (sample_subject ''subj'')
      \<and> map_of (sample_subject ''subj'') ''remote_file_manifest''
          = Some (PList (PDict [(''url'', PStr ''globus://ep1:/data/file.txt'')] # []))
      \<and> map_of [(''url'', PStr ''globus://ep1:/data/file.txt'')] ''url''
          = Some (PStr ''globus://ep1:/data/file.txt'')
      \<and> urlparse env0 ''globus://ep1:/data/file.txt''
          = Inr \<lparr>netloc = ''ep1:'', path = ''/data/file.txt'', query = []\<rparr>"
    by (simp add: sample_defs)
  with detail_transfer_get_never_transfers[OF a m, of env0 "''idx''" "''subj''"]
  show ?thesis
    by (simp add: sample_defs)
qed

text \<open>
  With a manifest whose first entry is a dictionary with a string \<^verbatim>\<open>'url'\<close> that parses, the
  \<^verbatim>\<open>try\<close> block's calls are the existence check, then the transfer if it is reached, then the
  helper-page URL if it is reached, the first two on the same endpoint and path.
\<close>

lemma transfer_try_target:
  assumes "map_of (ctx s) ''remote_file_manifest'' = Some (PList (PDict d # rest))"
      and "map_of d ''url'' = Some (PStr u)"
      and "urlparse env u = Inr parsed"
      and "ep = filter (\<lambda>c. c \<noteq> CHR '':'') (netloc parsed)"
      and "transfer_try env index subject s = (s', r)"
  shows "calls s' = calls s @ [Call_check_exists (user (req s)) ep (path parsed) True]
       \<or> calls s' = calls s @ [Call_check_exists (user (req s)) ep (path parsed) True,
                               Call_helper_page_transfer (req s) ep (path parsed) True]
       \<or> (\<exists>a b m n. calls s' = calls s @ [Call_check_exists (user (req s)) ep (path parsed) True,
                               Call_get_helper_page_url a b m n])
       \<or> (\<exists>a b m n. calls s' = calls s @ [Call_check_exists (user (req s)) ep (path parsed) True,
                               Call_helper_page_transfer (req s) ep (path parsed) True,
                               Call_get_helper_page_url a b m n])"
    and "http_method (req s) = ''POST'' \<Longrightarrow>
         check_exists env (user (req s)) ep (path parsed) True = Inr v \<Longrightarrow>
         take 2 (drop (length (calls s)) (calls s')) =
           [Call_check_exists (user (req s)) ep (path parsed) True,
            Call_helper_page_transfer (req s) ep (path parsed) True]"
  using assms
  by (auto simp add: transfer_try_def stmt_defs Let_def dict_get_def py_urlparse_def
           split: if_splits sum.splits)

lemma detail_transfer_calls_shape:
  assumes "is_authenticated (user request)"
      and "get_subject env index subject (user request) = Inr subj"
      and "transfer_try env index subject (after_get_subject request index subject subj) = (s2, r2)"
  shows "calls (fst (detail_transfer env request index subject)) = calls s2
       \<or> calls (fst (detail_transfer env request index subject))
            = calls s2 @ [Call_get_template index ''detail-transfer.html'']"
proof -
  let ?s1 = "after_get_subject request index subject subj"
  obtain s3 r3 where x: "try_except (transfer_try env index subject) transfer_except ?s1 = (s3, r3)"
    by fastforce
  have c3: "calls s3 = calls s2"
    using x assms(3) transfer_except_frame(1)
    by (auto simp add: try_except_def split: sum.splits option.splits)
  show ?thesis
    using c3 x
    by (auto simp add: detail_transfer_authenticated[OF assms(1,2)] thenM_def bindM_def
          render_def callM_def get_context_def returnM_def split: sum.splits)
qed

text \<open>What a successful subscript or parse says about the value it was applied to.\<close>

lemma subscript_str_Inr:
  "subscript_str v k = Inr x \<Longrightarrow> \<exists>d. v = PDict d \<and> map_of d k = Some x"
  by (cases v) (auto split: option.splits)

lemma subscript_0_dict:
  "subscript_0 m = Inr (PDict d) \<Longrightarrow> \<exists>rest. m = PList (PDict d # rest)"
  by (cases m rule: subscript_0.cases) auto

lemma py_urlparse_Inr:
  "py_urlparse env v = Inr parsed \<Longrightarrow> \<exists>u. v = PStr u \<and> urlparse env u = Inr parsed"
  by (cases v) (auto simp add: py_urlparse_def split: if_splits)

text \<open>
  The \<^verbatim>\<open>try\<close> block makes a call only after it has read the URL of the first manifest entry
  and parsed it.
\<close>

lemma transfer_try_calls_wf:
  assumes "transfer_try env index subject s = (s', r)"
      and "calls s' \<noteq> calls s"
  shows "\<exists>d rest u parsed.
           map_of (ctx s) ''remote_file_manifest'' = Some (PList (PDict d # rest))
         \<and> map_of d ''url'' = Some (PStr u)
         \<and> urlparse env u = Inr parsed"
proof (cases "map_of (ctx s) ''remote_file_manifest''")
  case None
  with assms show ?thesis
    by (simp add: transfer_try_def stmt_defs)
next
  case (Some m)
  show ?thesis
  proof (cases "subscript_0 m")
    case (Inl e)
    with assms Some show ?thesis
      by (simp add: transfer_try_def stmt_defs dict_get_def split: if_splits)
  next
    case entry: (Inr entry)
    show ?thesis
    proof (cases "subscript_str entry ''url''")
      case (Inl e)
      with assms Some entry show ?thesis
        by (simp add: transfer_try_def stmt_defs dict_get_def split: if_splits)
    next
      case url: (Inr url)
      show ?thesis
      proof (cases "py_urlparse env url")
        case (Inl e)
        with assms Some entry url show ?thesis
          by (simp add: transfer_try_def stmt_defs dict_get_def split: if_splits)
      next
        case (Inr parsed)
        from subscript_str_Inr[OF url] obtain d
          where d: "entry = PDict d" "map_of d ''url'' = Some url" by blast
        from subscript_0_dict[OF entry[unfolded d(1)]] obtain rest
          where m: "m = PList (PDict d # rest)" by blast
        from py_urlparse_Inr[OF Inr] obtain u
          where u: "url = PStr u" "urlparse env u = Inr parsed" by blast
        from Some m d u show ?thesis by blast
      qed
    qed
  qed
qed


text \<open>
  Claim C9. For an authenticated request, every existence check and every transfer the handler
  calls has an endpoint and a path that come from the first entry of the subject's
  \<^verbatim>\<open>'remote_file_manifest'\<close>: that entry has a string \<^verbatim>\<open>'url'\<close> which \<^verbatim>\<open>urlparse\<close> accepted, the
  endpoint is the URL's network location with every \<open>:\<close> removed, and the path is the URL's
  path component. Conversely, when the manifest has such a first entry, the call after
  \<^verbatim>\<open>get_subject\<close> is the existence check on that endpoint and path, and on a \<^verbatim>\<open>POST\<close> whose
  existence check returns, the next call is the transfer on the same endpoint and path.
\<close>

theorem detail_transfer_target:
  assumes "is_authenticated (user request)"
      and "made = calls (fst (detail_transfer env request index subject))"
  shows "(\<forall>c \<in> set made. \<forall>e p.
            (\<exists>usr r. c = Call_check_exists usr e p r)
          \<or> (\<exists>rq b. c = Call_helper_page_transfer rq e p b) \<longrightarrow>
            (\<exists>subj d rest u parsed.
                get_subject env index subject (user request) = Inr subj
              \<and> map_of subj ''remote_file_manifest'' = Some (PList (PDict d # rest))
              \<and> map_of d ''url'' = Some (PStr u)
              \<and> urlparse env u = Inr parsed
              \<and> e = filter (\<lambda>c. c \<noteq> CHR '':'') (netloc parsed)
              \<and> p = path parsed))
       \<and> (\<forall>subj d rest u parsed ep.
             get_subject env index subject (user request) = Inr subj
           \<and> map_of subj ''remote_file_manifest'' = Some (PList (PDict d # rest))
           \<and> map_of d ''url'' = Some (PStr u)
           \<and> urlparse env u = Inr parsed
           \<and> ep = filter (\<lambda>c. c \<noteq> CHR '':'') (netloc parsed) \<longrightarrow>
             take 2 made = [Call_get_subject index subject (user request),
                            Call_check_exists (user request) ep (path parsed) True]
           \<and> (http_method request = ''POST''
                \<and> (\<exists>v. check_exists env (user request) ep (path parsed) True = Inr v) \<longrightarrow>
                 take 3 made = [Call_get_subject index subject (user request),
                                Call_check_exists (user request) ep (path parsed) True,
                                Call_helper_page_transfer request ep (path parsed) True]))"
proof (intro conjI ballI allI impI)
  fix c e p
  assume c: "c \<in> set made"
     and k: "(\<exists>usr r. c = Call_check_exists usr e p r)
           \<or> (\<exists>rq b. c = Call_helper_page_transfer rq e p b)"
  show "\<exists>subj d rest u parsed.
                get_subject env index subject (user request) = Inr subj
              \<and> map_of subj ''remote_file_manifest'' = Some (PList (PDict d # rest))
              \<and> map_of d ''url'' = Some (PStr u)
              \<and> urlparse env u = Inr parsed
              \<and> e = filter (\<lambda>c. c \<noteq> CHR '':'') (netloc parsed)
              \<and> p = path parsed"
  proof (cases "get_subject env index subject (user request)")
    case (Inl err)
    then have "made = [Call_get_subject index subject (user request)]"
      by (simp add: assms(2) detail_transfer_def stmt_defs)
    with c k show ?thesis by auto
  next
    case (Inr subj)
    let ?s1 = "after_get_subject request index subject subj"
    obtain s2 r2 where t: "transfer_try env index subject ?s1 = (s2, r2)" by fastforce
    have s1: "calls ?s1 = [Call_get_subject index subject (user request)]" "req ?s1 = request"
             "ctx ?s1 = subj"
      by (simp_all add: after_get_subject_def)
    note fin = detail_transfer_calls_shape[OF assms(1) Inr t, folded assms(2)]
    have "calls s2 \<noteq> calls ?s1"
      using c k fin s1(1) by auto
    from transfer_try_calls_wf[OF t this] obtain d rest u parsed
      where wf: "map_of subj ''remote_file_manifest'' = Some (PList (PDict d # rest))"
                "map_of d ''url'' = Some (PStr u)" "urlparse env u = Inr parsed"
      unfolding s1 by blast
    have wf1: "map_of (ctx ?s1) ''remote_file_manifest'' = Some (PList (PDict d # rest))"
      using wf(1) by (simp add: s1)
    note shape = transfer_try_target(1)[OF wf1 wf(2,3) refl t, unfolded s1]
    have "e = filter (\<lambda>c. c \<noteq> CHR '':'') (netloc parsed) \<and> p = path parsed"
      using c k shape fin by auto
    with Inr wf show ?thesis by blast
  qed
next
  fix subj d rest u parsed ep
  assume h: "get_subject env index subject (user request) = Inr subj
           \<and> map_of subj ''remote_file_manifest'' = Some (PList (PDict d # rest))
           \<and> map_of d ''url'' = Some (PStr u)
           \<and> urlparse env u = Inr parsed
           \<and> ep = filter (\<lambda>c. c \<noteq> CHR '':'') (netloc parsed)"
  let ?s1 = "after_get_subject request index subject subj"
  obtain s2 r2 where t: "transfer_try env index subject ?s1 = (s2, r2)" by fastforce
  have wf: "map_of (ctx ?s1) ''remote_file_manifest'' = Some (PList (PDict d # rest))"
           "map_of d ''url'' = Some (PStr u)" "urlparse env u = Inr parsed"
           "ep = filter (\<lambda>c. c \<noteq> CHR '':'') (netloc parsed)"
    using h by (simp_all add: after_get_subject_def)
  have s1: "calls ?s1 = [Call_get_subject index subject (user request)]" "req ?s1 = request"
    by (simp_all add: after_get_subject_def)
  note shape = transfer_try_target(1)[OF wf t, unfolded s1]
  note post = transfer_try_target(2)[OF wf t, unfolded s1]
  note fin = detail_transfer_calls_shape[OF assms(1) conjunct1[OF h] t, folded assms(2)]
  show "take 2 made = [Call_get_subject index subject (user request),
                       Call_check_exists (user request) ep (path parsed) True]"
    using shape fin by auto
  show "take 3 made = [Call_get_subject index subject (user request),
                       Call_check_exists (user request) ep (path parsed) True,
                       Call_helper_page_transfer request ep (path parsed) True]"
    if "http_method request = ''POST''
        \<and> (\<exists>v. check_exists env (user request) ep (path parsed) True = Inr v)"
  proof -
    from that obtain v where v: "check_exists env (user request) ep (path parsed) True = Inr v"
      by blast
    from post[OF conjunct1[OF that] v] shape fin show ?thesis by auto
  qed
qed

theorem detail_transfer_target_witness:
  "take 3 (calls (fst (detail_transfer env0 (sample_request alice ''POST'' []) ''idx'' ''subj''))) =
     [Call_get_subject ''idx'' ''subj'' alice,
      Call_check_exists alice ''ep1'' ''/data/file.txt'' True,
      Call_helper_page_transfer (sample_request alice ''POST'' []) ''ep1'' ''/data/file.txt'' True]"
proof -
  let ?r = "sample_request alice ''POST'' []"
  let ?p = "\<lparr>netloc = ''ep1:'', path = ''/data/file.txt'', query = []\<rparr>"
  have a: "is_authenticated (user ?r)"
    by (simp add: sample_defs)
  have w: "get_subject env0 ''idx'' ''subj'' (user ?r) = Inr (sample_subject ''subj'')
         \<and> map_of (sample_subject ''subj'') ''remote_file_manifest''
             = Some (PList (PDict [(''url'', PStr ''globus://ep1:/data/file.txt'')] # []))
         \<and> map_of [(''url'', PStr ''globus://ep1:/data/file.txt'')] ''url''
             = Some (PStr ''globus://ep1:/data/file.txt'')
         \<and> urlparse env0 ''globus://ep1:/data/file.txt'' = Inr ?p
         \<and> ''ep1'' = filter (\<lambda>c. c \<noteq> CHR '':'') (netloc ?p)"
    by (simp add: sample_defs)
  have m: "http_method ?r = ''POST''
         \<and> (\<exists>v. check_exists env0 (user ?r) ''ep1'' (path ?p) True = Inr v)"
    by (simp add: sample_defs)
  from conjunct2[OF detail_transfer_target[OF a refl, of env0 "''idx''" "''subj''"],
         rule_format, OF w, THEN conjunct2, rule_format, OF m]
  have "take 3 (calls (fst (detail_transfer env0 ?r ''idx'' ''subj''))) =
          [Call_get_subject ''idx'' ''subj'' (user ?r),
           Call_check_exists (user ?r) ''ep1'' (path ?p) True,
           Call_helper_page_transfer ?r ''ep1'' (path ?p) True]"
    .
  then show ?thesis
    by (simp add: sample_request_def)
qed

subsection \<open>\<^verbatim>\<open>detail_preview\<close>\<close>

text \<open>Once \<^verbatim>\<open>get_subject\<close> has returned, the handler is the \<^verbatim>\<open>try\<close> statement followed by the rendering.\<close>

lemma detail_preview_unfold:
  assumes "get_subject env index subject (user request) = Inr subj"
  shows "detail_preview env request index subject endpoint url_path =
     thenM (try_except (preview_try env subject endpoint url_path) (preview_except env))
           (render env index ''detail-preview.html'')
       (after_get_subject request index subject subj)"
  using assms
  by (simp add: detail_preview_def bindM_def thenM_def callM_def set_context_def init_def
        after_get_subject_def)

text \<open>The \<^verbatim>\<open>try\<close> block when none of the three is given, and when at least one is.\<close>

lemma preview_try_none_given:
  assumes "\<not> (truthy_opt endpoint \<or> truthy_opt url_path \<or> truthy_opt (map_of (GET (req s)) ''scope''))"
  shows "preview_try env subject endpoint url_path s =
     (s\<lparr>logs := logs s @
          [(LogError, PStr (''Preview Error: Endpoint, Path, or Scope not given. (Got: ''
                    @ fmt_opt endpoint @ '', '' @ fmt_opt url_path @ '', ''
                    @ fmt_opt (map_of (GET (req s)) ''scope'') @ '')''), [])]\<rparr>,
      Inl (PreviewURLNotFound subject))"
  using assms by (simp add: preview_try_def stmt_defs Let_def)

lemma preview_try_given:
  assumes "truthy_opt endpoint \<or> truthy_opt url_path \<or> truthy_opt (map_of (GET (req s)) ''scope'')"
      and "url = ''https://'' @ fmt_opt endpoint @ ''/'' @ fmt_opt url_path"
  shows "preview_try env subject endpoint url_path s =
     (case get_setting env ''PREVIEW_DATA_SIZE'' of
        Inl e \<Rightarrow> (s\<lparr>logs := logs s @ [(LogDebug, PStr (''Previewing with url: '' @ url), [])],
                     calls := calls s @ [Call_get_setting ''PREVIEW_DATA_SIZE'']\<rparr>, Inl e)
      | Inr sz \<Rightarrow>
         (case preview env (user (req s)) url (map_of (GET (req s)) ''scope'') sz of
            Inl e \<Rightarrow> (s\<lparr>logs := logs s @ [(LogDebug, PStr (''Previewing with url: '' @ url), [])],
                     calls := calls s @ [Call_get_setting ''PREVIEW_DATA_SIZE'',
                         Call_preview (user (req s)) url (map_of (GET (req s)) ''scope'') sz]\<rparr>,
                      Inl e)
          | Inr data \<Rightarrow> (s\<lparr>logs := logs s @ [(LogDebug, PStr (''Previewing with url: '' @ url), [])],
                     calls := calls s @ [Call_get_setting ''PREVIEW_DATA_SIZE'',
                         Call_preview (user (req s)) url (map_of (GET (req s)) ''scope'') sz],
                     ctx := AList.update ''preview_data'' data (ctx s)\<rparr>, Inr ())))"
  using assms
  by (auto simp add: preview_try_def stmt_defs Let_def split: sum.splits)

text \<open>An exception leaves the \<^verbatim>\<open>try\<close> block before \<^verbatim>\<open>'preview_data'\<close> is assigned.\<close>

lemma preview_try_raises_ctx:
  "preview_try env subject endpoint url_path s = (s', Inl e) \<Longrightarrow> ctx s' = ctx s"
  by (auto simp add: preview_try_def stmt_defs Let_def split: if_splits sum.splits)

lemma preview_caught:
  assumes "get_subject env index subject (user request) = Inr subj"
      and "preview_try env subject endpoint url_path (after_get_subject request index subject subj)
             = (s', Inl pe)"
      and "preview_exception_code env pe = Some code"
  shows "ctx (fst (detail_preview env request index subject endpoint url_path))
           = AList.update ''detail_error'' (PExn pe) subj"
    and "calls (fst (detail_preview env request index subject endpoint url_path))
           = calls s' @ [Call_get_template index ''detail-preview.html'']"
    and "get_template env index ''detail-preview.html'' = Inr t \<Longrightarrow>
         snd (detail_preview env request index subject endpoint url_path)
           = Inr (Render t (AList.update ''detail_error'' (PExn pe) subj))"
proof -
  have c: "ctx s' = subj"
    using preview_try_raises_ctx[OF assms(2)] by (simp add: after_get_subject_def)
  show "ctx (fst (detail_preview env request index subject endpoint url_path))
           = AList.update ''detail_error'' (PExn pe) subj"
    using assms(2,3) c
    by (simp add: detail_preview_unfold[OF assms(1)] preview_except_def stmt_defs
          split: sum.splits)
  show "calls (fst (detail_preview env request index subject endpoint url_path))
           = calls s' @ [Call_get_template index ''detail-preview.html'']"
    using assms(2,3) c
    by (simp add: detail_preview_unfold[OF assms(1)] preview_except_def stmt_defs
          split: sum.splits)
  show "get_template env index ''detail-preview.html'' = Inr t \<Longrightarrow>
         snd (detail_preview env request index subject endpoint url_path)
           = Inr (Render t (AList.update ''detail_error'' (PExn pe) subj))"
    using assms(2,3) c
    by (simp add: detail_preview_unfold[OF assms(1)] preview_except_def stmt_defs)
qed

lemma detail_preview_none_given:
  assumes "get_subject env index subject (user request) = Inr subj"
      and "\<not> (truthy_opt endpoint \<or> truthy_opt url_path \<or> truthy_opt (map_of (GET request) ''scope''))"
  shows "calls (fst (detail_preview env request index subject endpoint url_path))
           = [Call_get_subject index subject (user request),
              Call_get_template index ''detail-preview.html'']"
    and "ctx (fst (detail_preview env request index subject endpoint url_path))
           = AList.update ''detail_error'' (PExn (PreviewURLNotFound subject)) subj"
    and "get_template env index ''detail-preview.html'' = Inr t \<Longrightarrow>
         snd (detail_preview env request index subject endpoint url_path)
           = Inr (Render t (AList.update ''detail_error'' (PExn (PreviewURLNotFound subject)) subj))"
proof -
  let ?s1 = "after_get_subject request index subject subj"
  have n: "\<not> (truthy_opt endpoint \<or> truthy_opt url_path \<or> truthy_opt (map_of (GET (req ?s1)) ''scope''))"
    using assms(2) by (simp add: after_get_subject_def)
  note t = preview_try_none_given[OF n, of env subject]
  have k: "preview_exception_code env (PreviewURLNotFound subject)
             = Some (preview_url_not_found_code env)"
    by simp
  show "calls (fst (detail_preview env request index subject endpoint url_path))
           = [Call_get_subject index subject (user request),
              Call_get_template index ''detail-preview.html'']"
    using preview_caught(2)[OF assms(1) t k] by (simp add: after_get_subject_def)
  show "ctx (fst (detail_preview env request index subject endpoint url_path))
           = AList.update ''detail_error'' (PExn (PreviewURLNotFound subject)) subj"
    by (rule preview_caught(1)[OF assms(1) t k])
  show "get_template env index ''detail-preview.html'' = Inr t \<Longrightarrow>
         snd (detail_preview env request index subject endpoint url_path)
           = Inr (Render t (AList.update ''detail_error'' (PExn (PreviewURLNotFound subject)) subj))"
    by (rule preview_caught(3)[OF assms(1) t k])
qed

lemma detail_preview_given:
  assumes "get_subject env index subject (user request) = Inr subj"
      and "truthy_opt endpoint \<or> truthy_opt url_path \<or> truthy_opt (map_of (GET request) ''scope'')"
      and "url = ''https://'' @ fmt_opt endpoint @ ''/'' @ fmt_opt url_path"
  shows "take 2 (calls (fst (detail_preview env request index subject endpoint url_path)))
           = [Call_get_subject index subject (user request),
              Call_get_setting ''PREVIEW_DATA_SIZE'']"
    and "(LogDebug, PStr (''Previewing with url: '' @ url), [])
           \<in> set (logs (fst (detail_preview env request index subject endpoint url_path)))"
    and "get_setting env ''PREVIEW_DATA_SIZE'' = Inr sz \<Longrightarrow>
         take 3 (calls (fst (detail_preview env request index subject endpoint url_path)))
           = [Call_get_subject index subject (user request),
              Call_get_setting ''PREVIEW_DATA_SIZE'',
              Call_preview (user request) url (map_of (GET request) ''scope'') sz]"
    and "get_setting env ''PREVIEW_DATA_SIZE'' = Inr sz \<Longrightarrow>
         preview env (user request) url (map_of (GET request) ''scope'') sz = Inr data \<Longrightarrow>
         ctx (fst (detail_preview env request index subject endpoint url_path))
           = AList.update ''preview_data'' data subj"
    and "get_setting env ''PREVIEW_DATA_SIZE'' = Inr sz \<Longrightarrow>
         preview env (user request) url (map_of (GET request) ''scope'') sz = Inr data \<Longrightarrow>
         get_template env index ''detail-preview.html'' = Inr t \<Longrightarrow>
         snd (detail_preview env request index subject endpoint url_path)
           = Inr (Render t (AList.update ''preview_data'' data subj))"
proof -
  let ?s1 = "after_get_subject request index subject subj"
  have g: "truthy_opt endpoint \<or> truthy_opt url_path \<or> truthy_opt (map_of (GET (req ?s1)) ''scope'')"
    using assms(2) by (simp add: after_get_subject_def)
  note t = preview_try_given[OF g assms(3), of env subject]
  note d = detail_preview_unfold[OF assms(1), of endpoint url_path]
  have r: "req ?s1 = request" "calls ?s1 = [Call_get_subject index subject (user request)]"
          "ctx ?s1 = subj"
    by (simp_all add: after_get_subject_def)
  show "take 2 (calls (fst (detail_preview env request index subject endpoint url_path)))
           = [Call_get_subject index subject (user request),
              Call_get_setting ''PREVIEW_DATA_SIZE'']"
    by (auto simp add: d t r thenM_def bindM_def try_except_def preview_except_def
          render_def callM_def get_context_def returnM_def context_set_def log_def
          split: sum.splits option.splits if_splits)
  show "(LogDebug, PStr (''Previewing with url: '' @ url), [])
           \<in> set (logs (fst (detail_preview env request index subject endpoint url_path)))"
    by (auto simp add: d t r thenM_def bindM_def try_except_def preview_except_def
          render_def callM_def get_context_def returnM_def context_set_def log_def
          split: sum.splits option.splits if_splits)
  show "get_setting env ''PREVIEW_DATA_SIZE'' = Inr sz \<Longrightarrow>
         take 3 (calls (fst (detail_preview env request index subject endpoint url_path)))
           = [Call_get_subject index subject (user request),
              Call_get_setting ''PREVIEW_DATA_SIZE'',
              Call_preview (user request) url (map_of (GET request) ''scope'') sz]"
    by (auto simp add: d t r thenM_def bindM_def try_except_def preview_except_def
          render_def callM_def get_context_def returnM_def context_set_def log_def
          split: sum.splits option.splits if_splits)
  show "get_setting env ''PREVIEW_DATA_SIZE'' = Inr sz \<Longrightarrow>
         preview env (user request) url (map_of (GET request) ''scope'') sz = Inr data \<Longrightarrow>
         ctx (fst (detail_preview env request index subject endpoint url_path))
           = AList.update ''preview_data'' data subj"
    by (auto simp add: d t r thenM_def bindM_def try_except_def
          render_def callM_def get_context_def returnM_def split: sum.splits)
  show "get_setting env ''PREVIEW_DATA_SIZE'' = Inr sz \<Longrightarrow>
         preview env (user request) url (map_of (GET request) ''scope'') sz = Inr data \<Longrightarrow>
         get_template env index ''detail-preview.html'' = Inr t \<Longrightarrow>
         snd (detail_preview env request index subject endpoint url_path)
           = Inr (Render t (AList.update ''preview_data'' data subj))"
    by (auto simp add: d t r thenM_def bindM_def try_except_def
          render_def callM_def get_context_def returnM_def split: sum.splits)
qed





text \<open>
  Claim C1 does not hold: the handler has no authentication check. With the sample
  environment, a request of the anonymous user for the endpoint \<^verbatim>\<open>ep1\<close> and the path
  \<^verbatim>\<open>data/file.txt\<close> makes the handler call the preview operation and render its result under
  \<^verbatim>\<open>'preview_data'\<close>.
\<close>

theorem detail_preview_unauthenticated_counterexample:
  "is_authenticated (user (sample_request anonymous ''GET'' [])) = False
   \<and> calls (fst (detail_preview env0 (sample_request anonymous ''GET'' []) ''idx'' ''subj''
                   (Some ''ep1'') (Some ''data/file.txt''))) =
       [Call_get_subject ''idx'' ''subj'' anonymous,
        Call_get_setting ''PREVIEW_DATA_SIZE'',
        Call_preview anonymous ''https://ep1/data/file.txt'' None (PInt 2048),
        Call_get_template ''idx'' ''detail-preview.html'']
   \<and> snd (detail_preview env0 (sample_request anonymous ''GET'' []) ''idx'' ''subj''
            (Some ''ep1'') (Some ''data/file.txt'')) =
       Inr (Render ''detail-preview.html''
             (sample_subject ''subj'' @ [(''preview_data'', PStr ''a,b,c'')]))"
  by (simp add: detail_preview_def preview_try_def preview_except_def stmt_defs sample_defs
        truthy_opt_def fmt_opt_def Let_def)

text \<open>
  Claim C1, amended. The handler does not look at \<^verbatim>\<open>is_authenticated\<close>: for every request,
  of an authenticated user or not, once \<^verbatim>\<open>get_subject\<close> has returned, (a) if the endpoint, the
  \<^verbatim>\<open>url_path\<close> or the \<^verbatim>\<open>scope\<close> parameter is given and \<^verbatim>\<open>get_setting\<close> returns the preview size,
  the handler calls the preview operation with the request's user, the URL built from endpoint
  and path, the scope and that size, and when the operation returns, its result is in the
  context under \<^verbatim>\<open>'preview_data'\<close> and the page is rendered with it; (b) if none of the three
  is given, the preview operation is not called and \<^verbatim>\<open>'preview_data'\<close> is in the context only
  if the subject came with it.
\<close>

theorem detail_preview_not_gated:
  assumes "get_subject env index subject (user request) = Inr subj"
      and "given = (truthy_opt endpoint \<or> truthy_opt url_path
                     \<or> truthy_opt (map_of (GET request) ''scope''))"
      and "url = ''https://'' @ fmt_opt endpoint @ ''/'' @ fmt_opt url_path"
      and "R = detail_preview env request index subject endpoint url_path"
  shows "(\<forall>sz. given \<and> get_setting env ''PREVIEW_DATA_SIZE'' = Inr sz \<longrightarrow>
            take 3 (calls (fst R)) =
              [Call_get_subject index subject (user request),
               Call_get_setting ''PREVIEW_DATA_SIZE'',
               Call_preview (user request) url (map_of (GET request) ''scope'') sz]
          \<and> (\<forall>data. preview env (user request) url (map_of (GET request) ''scope'') sz = Inr data \<longrightarrow>
                ctx (fst R) = AList.update ''preview_data'' data subj
              \<and> (\<forall>t. get_template env index ''detail-preview.html'' = Inr t \<longrightarrow>
                    snd R = Inr (Render t (AList.update ''preview_data'' data subj)))))
       \<and> (\<not> given \<longrightarrow>
            (\<forall>u x sc z. Call_preview u x sc z \<notin> set (calls (fst R)))
          \<and> map_of (ctx (fst R)) ''preview_data'' = map_of subj ''preview_data'')"
proof (intro conjI allI impI)
  fix sz
  assume h: "given \<and> get_setting env ''PREVIEW_DATA_SIZE'' = Inr sz"
  then have g: "truthy_opt endpoint \<or> truthy_opt url_path
                 \<or> truthy_opt (map_of (GET request) ''scope'')"
    by (simp add: assms(2))
  show "take 3 (calls (fst R)) =
              [Call_get_subject index subject (user request),
               Call_get_setting ''PREVIEW_DATA_SIZE'',
               Call_preview (user request) url (map_of (GET request) ''scope'') sz]"
    unfolding assms(4) by (rule detail_preview_given(3)[OF assms(1) g assms(3) conjunct2[OF h]])
  show "ctx (fst R) = AList.update ''preview_data'' data subj"
    if "preview env (user request) url (map_of (GET request) ''scope'') sz = Inr data" for data
    unfolding assms(4)
    by (rule detail_preview_given(4)[OF assms(1) g assms(3) conjunct2[OF h] that])
  show "snd R = Inr (Render t (AList.update ''preview_data'' data subj))"
    if "preview env (user request) url (map_of (GET request) ''scope'') sz = Inr data"
      and "get_template env index ''detail-preview.html'' = Inr t" for data t
    unfolding assms(4)
    by (rule detail_preview_given(5)[OF assms(1) g assms(3) conjunct2[OF h] that])
next
  assume "\<not> given"
  then have n: "\<not> (truthy_opt endpoint \<or> truthy_opt url_path
                     \<or> truthy_opt (map_of (GET request) ''scope''))"
    by (simp add: assms(2))
  show "Call_preview u x sc z \<notin> set (calls (fst R))" for u x sc z
    unfolding assms(4) by (simp add: detail_preview_none_given(1)[OF assms(1) n])
  show "map_of (ctx (fst R)) ''preview_data'' = map_of subj ''preview_data''"
    unfolding assms(4) by (simp add: detail_preview_none_given(2)[OF assms(1) n] update_conv')
qed

theorem detail_preview_not_gated_witness:
  "is_authenticated (user (sample_request anonymous ''GET'' [])) = False
   \<and> take 3 (calls (fst (detail_preview env0 (sample_request anonymous ''GET'' []) ''idx'' ''subj''
                           (Some ''ep1'') (Some ''data/file.txt'')))) =
       [Call_get_subject ''idx'' ''subj'' anonymous,
        Call_get_setting ''PREVIEW_DATA_SIZE'',
        Call_preview anonymous ''https://ep1/data/file.txt'' None (PInt 2048)]
   \<and> ctx (fst (detail_preview env0 (sample_request anonymous ''GET'' []) ''idx'' ''subj''
                 (Some ''ep1'') (Some ''data/file.txt''))) =
       sample_subject ''subj'' @ [(''preview_data'', PStr ''a,b,c'')]"
proof -
  let ?r = "sample_request anonymous ''GET'' []"
  have a: "is_authenticated (user ?r) = False"
    by (simp add: sample_defs)
  have s: "get_subject env0 ''idx'' ''subj'' (user ?r) = Inr (sample_subject ''subj'')"
    by (simp add: env0_def)
  have g: "truthy_opt (Some ''ep1'') \<or> truthy_opt (Some ''data/file.txt'')
            \<or> truthy_opt (map_of (GET ?r) ''scope'')"
    by (simp add: truthy_opt_def)
  have z: "get_setting env0 ''PREVIEW_DATA_SIZE'' = Inr (PInt 2048)"
    by (simp add: env0_def)
  have p: "preview env0 (user ?r)
             (''https://'' @ fmt_opt (Some ''ep1'') @ ''/'' @ fmt_opt (Some ''data/file.txt''))
             (map_of (GET ?r) ''scope'') (PInt 2048) = Inr (PStr ''a,b,c'')"
    by (simp add: env0_def)
  from detail_preview_not_gated[OF s refl refl refl, of "Some ''ep1''" "Some ''data/file.txt''"]
       g z p
  have "take 3 (calls (fst (detail_preview env0 ?r ''idx'' ''subj''
                           (Some ''ep1'') (Some ''data/file.txt'')))) =
          [Call_get_subject ''idx'' ''subj'' (user ?r),
           Call_get_setting ''PREVIEW_DATA_SIZE'',
           Call_preview (user ?r)
             (''https://'' @ fmt_opt (Some ''ep1'') @ ''/'' @ fmt_opt (Some ''data/file.txt''))
             (map_of (GET ?r) ''scope'') (PInt 2048)]
      \<and> ctx (fst (detail_preview env0 ?r ''idx'' ''subj''
                 (Some ''ep1'') (Some ''data/file.txt''))) =
          AList.update ''preview_data'' (PStr ''a,b,c'') (sample_subject ''subj'')"
    by blast
  with a show ?thesis
    by (simp add: sample_request_def sample_subject_def fmt_opt_def)
qed

end
